theory Spec2Isabelle
  imports Complex_Main "HOL-Library.Multiset"
begin

section \<open>JavaScript numbers\<close>

text \<open>
  The script \<open>scripts/visuals.js\<close> computes with JavaScript numbers. A number is modelled
  as a real value, one of the two infinities, or NaN. Arithmetic on finite values is exact:
  rounding and overflow of doubles are not modelled, and the two zeros are not told apart.
  What is modelled is where an operation leaves the reals: \<open>0 / 0\<close>, \<open>x / 0\<close>,
  \<open>Infinity - Infinity\<close>, \<open>0 * Infinity\<close>, the square root of a negative value, and that
  every comparison with NaN is false. The only divisor of the program that can be zero is a
  result of \<open>Math.sqrt\<close>, which is the positive zero, so \<open>x / 0\<close> takes the sign of \<open>x\<close>.
\<close>

datatype jsnum = Fin real | PInf | NInf | NaN

fun jneg :: "jsnum \<Rightarrow> jsnum" where
  "jneg (Fin a) = Fin (- a)"
| "jneg PInf = NInf"
| "jneg NInf = PInf"
| "jneg NaN = NaN"

fun jadd :: "jsnum \<Rightarrow> jsnum \<Rightarrow> jsnum" where
  "jadd NaN _ = NaN"
| "jadd _ NaN = NaN"
| "jadd (Fin a) (Fin b) = Fin (a + b)"
| "jadd (Fin a) PInf = PInf"
| "jadd (Fin a) NInf = NInf"
| "jadd PInf (Fin b) = PInf"
| "jadd NInf (Fin b) = NInf"
| "jadd PInf PInf = PInf"
| "jadd NInf NInf = NInf"
| "jadd PInf NInf = NaN"
| "jadd NInf PInf = NaN"

definition jsub :: "jsnum \<Rightarrow> jsnum \<Rightarrow> jsnum" where
  "jsub a b = jadd a (jneg b)"

text \<open>The sign of an infinity multiplied or divided by a finite value \<open>b\<close>.\<close>

definition signed_inf :: "bool \<Rightarrow> jsnum" where
  "signed_inf positive = (if positive then PInf else NInf)"

fun jmul :: "jsnum \<Rightarrow> jsnum \<Rightarrow> jsnum" where
  "jmul NaN _ = NaN"
| "jmul _ NaN = NaN"
| "jmul (Fin a) (Fin b) = Fin (a * b)"
| "jmul (Fin a) PInf = (if a = 0 then NaN else signed_inf (0 < a))"
| "jmul (Fin a) NInf = (if a = 0 then NaN else signed_inf (a < 0))"
| "jmul PInf (Fin b) = (if b = 0 then NaN else signed_inf (0 < b))"
| "jmul NInf (Fin b) = (if b = 0 then NaN else signed_inf (b < 0))"
| "jmul PInf PInf = PInf"
| "jmul NInf NInf = PInf"
| "jmul PInf NInf = NInf"
| "jmul NInf PInf = NInf"

fun jdiv :: "jsnum \<Rightarrow> jsnum \<Rightarrow> jsnum" where
  "jdiv NaN _ = NaN"
| "jdiv _ NaN = NaN"
| "jdiv (Fin a) (Fin b) =
     (if b = 0 then (if a = 0 then NaN else signed_inf (0 < a)) else Fin (a / b))"
| "jdiv (Fin a) PInf = Fin 0"
| "jdiv (Fin a) NInf = Fin 0"
| "jdiv PInf (Fin b) = signed_inf (0 \<le> b)"
| "jdiv NInf (Fin b) = signed_inf (b < 0)"
| "jdiv PInf PInf = NaN"
| "jdiv NInf NInf = NaN"
| "jdiv PInf NInf = NaN"
| "jdiv NInf PInf = NaN"

fun jsqrt :: "jsnum \<Rightarrow> jsnum" where
  "jsqrt (Fin a) = (if a < 0 then NaN else Fin (sqrt a))"
| "jsqrt PInf = PInf"
| "jsqrt NInf = NaN"
| "jsqrt NaN = NaN"

fun jlt :: "jsnum \<Rightarrow> jsnum \<Rightarrow> bool" where
  "jlt NaN _ = False"
| "jlt _ NaN = False"
| "jlt (Fin a) (Fin b) = (a < b)"
| "jlt (Fin a) PInf = True"
| "jlt (Fin a) NInf = False"
| "jlt PInf _ = False"
| "jlt NInf (Fin b) = True"
| "jlt NInf PInf = True"
| "jlt NInf NInf = False"

definition jgt :: "jsnum \<Rightarrow> jsnum \<Rightarrow> bool" where
  "jgt a b = jlt b a"

text \<open>\<open>a \<le> x \<le> b\<close> on JavaScript numbers; false as soon as one of them is NaN.\<close>

fun jle :: "jsnum \<Rightarrow> jsnum \<Rightarrow> bool" where
  "jle NaN _ = False"
| "jle _ NaN = False"
| "jle a b = (a = b \<or> jlt a b)"

definition jbetween :: "jsnum \<Rightarrow> jsnum \<Rightarrow> jsnum \<Rightarrow> bool" where
  "jbetween a x b = (jle a x \<and> jle x b)"

definition is_finite :: "jsnum \<Rightarrow> bool" where
  "is_finite a = (case a of Fin _ \<Rightarrow> True | _ \<Rightarrow> False)"


section \<open>The state of the page and of the script\<close>

text \<open>
  A particle, as \<open>createParticle\<close> builds it: position, velocity and radius.
\<close>

record particle =
  p_x :: jsnum
  p_y :: jsnum
  p_vx :: jsnum
  p_vy :: jsnum
  p_r :: jsnum

text \<open>
  The object \<open>mouse\<close>. \<open>None\<close> is JavaScript's \<open>null\<close>; \<open>undefined\<close>, which a touch
  event without a touch point stores, behaves in the program as NaN does (it is not
  \<open>null\<close>, and arithmetic on it gives NaN) and is stored as \<open>Some NaN\<close>.
\<close>

record mouse_t =
  m_x :: "jsnum option"
  m_y :: "jsnum option"
  radius :: jsnum

text \<open>
  What the script draws, in order. \<open>ClearRect x y w h\<close> is \<open>ctx.clearRect\<close>;
  \<open>FillCircle x y r\<close> is the path of one \<open>ctx.arc\<close> filled in
  \<open>rgba(160,180,255,0.9)\<close>; \<open>StrokeLine ax ay bx by alpha\<close> is the path from
  \<open>(ax, ay)\<close> to \<open>(bx, by)\<close> stroked at width 1 in \<open>rgba(130,150,255,alpha)\<close>.
\<close>

datatype draw =
    ClearRect jsnum jsnum jsnum jsnum
  | FillCircle jsnum jsnum jsnum
  | StrokeLine jsnum jsnum jsnum jsnum jsnum

text \<open>
  One record holds the host's side (window, document, canvas, the frame scheduler, the
  random source) and the script's closure variables.
  \<^item> \<open>innerWidth\<close>, \<open>innerHeight\<close>: the viewport, non-negative integers of CSS pixels;
    \<open>devicePixelRatio\<close>: a finite double.
  \<^item> \<open>matchMedia\<close>: \<open>None\<close> when \<open>window.matchMedia\<close> is missing, otherwise whether
    \<open>(prefers-reduced-motion: reduce)\<close> matches.
  \<^item> \<open>visuals\<close>: \<open>document.body.dataset.visuals\<close>, \<open>None\<close> when the attribute is unset.
  \<^item> \<open>hidden\<close>: \<open>document.hidden\<close>.
  \<^item> \<open>canvas_width\<close>, \<open>canvas_height\<close>, \<open>style_width\<close>, \<open>style_height\<close> (in px),
    \<open>transform\<close> (the scale that \<open>ctx.setTransform(dpr,0,0,dpr,0,0)\<close> sets), \<open>drawn\<close>.
  \<^item> \<open>frame_counter\<close>: the host's animation frame callback identifier;
    \<open>pending\<close>: the handles of the frame callbacks that are scheduled and neither run nor
    cancelled yet.
  \<^item> \<open>listeners\<close>: the event names for which the script has registered a listener.
  \<^item> \<open>rnd\<close>, \<open>rnd_calls\<close>: the values \<open>Math.random()\<close> returns, in \<open>[0, 1)\<close>, and how
    many were taken.
  \<^item> \<open>var_w\<close>, \<open>var_h\<close>, \<open>particles\<close>, \<open>animationId\<close>, \<open>mouse\<close>: the closure variables
    \<open>w\<close>, \<open>h\<close>, \<open>particles\<close>, \<open>animationId\<close> (\<open>None\<close> for \<open>null\<close>) and \<open>mouse\<close>.
\<close>

record state =
  innerWidth :: nat
  innerHeight :: nat
  devicePixelRatio :: real
  matchMedia :: "bool option"
  visuals :: "string option"
  hidden :: bool
  canvas_width :: int
  canvas_height :: int
  style_width :: nat
  style_height :: nat
  transform :: real
  drawn :: "draw list"
  frame_counter :: nat
  pending :: "nat list"
  listeners :: "string list"
  rnd :: "nat \<Rightarrow> real"
  rnd_calls :: nat
  var_w :: int
  var_h :: int
  particles :: "particle list"
  animationId :: "nat option"
  mouse :: mouse_t

text \<open>The constants of \<open>settings\<close>.\<close>

definition maxDistance :: jsnum where
  "maxDistance = Fin 120"

definition speed :: jsnum where
  "speed = Fin 0.3"


section \<open>The run gate\<close>

text \<open>
  \<open>shouldRun\<close>: three early returns of \<open>false\<close>, in the order of the source. The document
  body exists when the script runs, and \<open>dataset\<close> with it.
\<close>

definition shouldRun :: "state \<Rightarrow> bool" where
  "shouldRun s =
     (if matchMedia s = Some True then False
      else if innerWidth s \<le> 640 then False
      else if visuals s = Some ''off'' then False
      else True)"


section \<open>Particles and resizing\<close>

text \<open>
  \<open>createParticle\<close> calls \<open>Math.random()\<close> five times, in the order of the object
  literal.
\<close>

definition createParticle :: "state \<Rightarrow> particle \<times> state" where
  "createParticle s =
     (let k = rnd_calls s in
      (\<lparr> p_x = jmul (Fin (rnd s k)) (Fin (real (innerWidth s))),
          p_y = jmul (Fin (rnd s (k + 1))) (Fin (real (innerHeight s))),
          p_vx = jmul (jmul (jsub (Fin (rnd s (k + 2))) (Fin 0.5)) speed) (Fin 2),
          p_vy = jmul (jmul (jsub (Fin (rnd s (k + 3))) (Fin 0.5)) speed) (Fin 2),
          p_r = jadd (jmul (Fin (rnd s (k + 4))) (Fin 1.8)) (Fin 0.6) \<rparr>,
       s\<lparr>rnd_calls := k + 5\<rparr>))"

text \<open>\<open>particles.push(createParticle())\<close>.\<close>

definition push_particle :: "state \<Rightarrow> state" where
  "push_particle s =
     (let (p, s') = createParticle s in s'\<lparr>particles := particles s' @ [p]\<rparr>)"

text \<open>
  \<open>Math.max(30, Math.min(120, Math.floor(area / 16000)))\<close> with
  \<open>area = window.innerWidth * window.innerHeight\<close>, as \<open>resize\<close> and \<open>init\<close> both compute it.
  The quotient is exact here. The rounding of a double cannot change the result: below 121
  the quotient of an integer by 16000 is too far from the next integer to be rounded onto
  it, and from 120 on the minimum with 120 decides.
\<close>

definition target_count :: "state \<Rightarrow> nat" where
  "target_count s =
     (let area = innerWidth s * innerHeight s
      in nat (max 30 (min 120 \<lfloor>real area / 16000\<rfloor>)))"

text \<open>The two loops of \<open>resize\<close>.\<close>

function grow :: "nat \<Rightarrow> state \<Rightarrow> state" where
  "grow target s =
     (if length (particles s) < target then grow target (push_particle s) else s)"
  by pat_completeness auto
termination
  by (relation "measure (\<lambda>(target, s). target - length (particles s))")
     (auto simp: push_particle_def createParticle_def Let_def)

declare grow.simps [simp del]

function trim :: "nat \<Rightarrow> state \<Rightarrow> state" where
  "trim target s =
     (if target < length (particles s)
      then trim target (s\<lparr>particles := butlast (particles s)\<rparr>) else s)"
  by pat_completeness auto
termination
  by (relation "measure (\<lambda>(target, s). length (particles s) - target)") auto

declare trim.simps [simp del]

text \<open>
  \<open>resize\<close>. \<open>window.devicePixelRatio || 1\<close> replaces a ratio of zero by 1.
\<close>

definition resize :: "state \<Rightarrow> state" where
  "resize s =
     (let dpr = (if devicePixelRatio s = 0 then 1 else devicePixelRatio s);
          cw = max 1 \<lfloor>real (innerWidth s) * dpr\<rfloor>;
          ch = max 1 \<lfloor>real (innerHeight s) * dpr\<rfloor>;
          s1 = s\<lparr>var_w := cw, canvas_width := cw, var_h := ch, canvas_height := ch,
                 style_width := innerWidth s, style_height := innerHeight s,
                 transform := dpr\<rparr>;
          target = target_count s1
      in trim target (grow target s1))"


section \<open>The host's frame scheduler\<close>

text \<open>
  \<open>requestAnimationFrame\<close> increments the callback identifier and returns it as the handle
  of the new callback; \<open>cancelAnimationFrame\<close> removes the callback with the given handle,
  if there is one (\<open>null\<close> names none).
\<close>

definition requestAnimationFrame :: "state \<Rightarrow> nat \<times> state" where
  "requestAnimationFrame s =
     (let handle = Suc (frame_counter s)
      in (handle, s\<lparr>frame_counter := handle, pending := pending s @ [handle]\<rparr>))"

definition cancelAnimationFrame :: "nat option \<Rightarrow> state \<Rightarrow> state" where
  "cancelAnimationFrame handle s =
     (case handle of
        None \<Rightarrow> s
      | Some n \<Rightarrow> s\<lparr>pending := removeAll n (pending s)\<rparr>)"

text \<open>Whether \<open>animationId\<close> is truthy: not \<open>null\<close> and not 0.\<close>

definition truthy_id :: "nat option \<Rightarrow> bool" where
  "truthy_id handle = (case handle of None \<Rightarrow> False | Some n \<Rightarrow> n \<noteq> 0)"


section \<open>The frame step\<close>

definition clearCanvas :: "state \<Rightarrow> state" where
  "clearCanvas s =
     s\<lparr>drawn := drawn s @
        [ClearRect (Fin 0) (Fin 0) (Fin (of_int (canvas_width s)))
           (Fin (of_int (canvas_height s)))]\<rparr>"

text \<open>
  The host's rule for \<open>clearRect\<close>: the rectangle is given in the coordinates of the
  current transform, which here is the scale \<open>transform\<close> that \<open>resize\<close> sets, and the
  pixels erased are those of its image. \<open>covers_canvas s d\<close>: the command \<open>d\<close>, issued in
  the state \<open>s\<close>, is a \<open>clearRect\<close> whose image covers the whole bitmap of
  \<open>canvas_width\<close> by \<open>canvas_height\<close> pixels. (The scale is positive and the rectangle has
  a non-negative size, as everywhere in the script.)
\<close>

fun covers_canvas :: "state \<Rightarrow> draw \<Rightarrow> bool" where
  "covers_canvas s (ClearRect (Fin x) (Fin y) (Fin w) (Fin h)) =
     (x * transform s \<le> 0 \<and> y * transform s \<le> 0
      \<and> real_of_int (canvas_width s) \<le> (x + w) * transform s
      \<and> real_of_int (canvas_height s) \<le> (y + h) * transform s)"
| "covers_canvas s _ = False"

text \<open>The body of the loop over the particles, in its four phases.\<close>

definition integrate :: "particle \<Rightarrow> particle" where
  "integrate p = p\<lparr>p_x := jadd (p_x p) (p_vx p), p_y := jadd (p_y p) (p_vy p)\<rparr>"

definition wrap :: "nat \<Rightarrow> nat \<Rightarrow> particle \<Rightarrow> particle" where
  "wrap iw ih p =
     (let p1 = (if jlt (p_x p) (Fin (- 10))
                then p\<lparr>p_x := jadd (Fin (real iw)) (Fin 10)\<rparr> else p);
          p2 = (if jgt (p_x p1) (jadd (Fin (real iw)) (Fin 10))
                then p1\<lparr>p_x := Fin (- 10)\<rparr> else p1);
          p3 = (if jlt (p_y p2) (Fin (- 10))
                then p2\<lparr>p_y := jadd (Fin (real ih)) (Fin 10)\<rparr> else p2);
          p4 = (if jgt (p_y p3) (jadd (Fin (real ih)) (Fin 10))
                then p3\<lparr>p_y := Fin (- 10)\<rparr> else p3)
      in p4)"

text \<open>
  The repulsion tests \<open>mouse.x\<close> only; a \<open>null\<close> in \<open>mouse.y\<close> would count as 0 in the
  subtraction. The distance is computed exactly here. In doubles \<open>dx*dx + dy*dy\<close>
  underflows to 0 for offsets below about \<open>1e-162\<close>, so that the script divides by 0 there
  as it does at the distance 0; of these the model shows the distance 0 only.
\<close>

definition repel :: "mouse_t \<Rightarrow> particle \<Rightarrow> particle" where
  "repel m p =
     (case m_x m of
        None \<Rightarrow> p
      | Some mx \<Rightarrow>
          (let my = (case m_y m of None \<Rightarrow> Fin 0 | Some v \<Rightarrow> v);
               dx = jsub (p_x p) mx;
               dy = jsub (p_y p) my;
               dist = jsqrt (jadd (jmul dx dx) (jmul dy dy))
           in if jlt dist (radius m)
              then (let force = jdiv (jsub (radius m) dist) (radius m)
                    in p\<lparr>p_vx := jadd (p_vx p) (jmul (jmul (jdiv dx dist) (Fin 0.6)) force),
                         p_vy := jadd (p_vy p) (jmul (jmul (jdiv dy dist) (Fin 0.6)) force)\<rparr>)
              else p))"

definition draw_point :: "particle \<Rightarrow> draw" where
  "draw_point p = FillCircle (p_x p) (p_y p) (p_r p)"

definition update_particle :: "state \<Rightarrow> particle \<Rightarrow> particle" where
  "update_particle s p = repel (mouse s) (wrap (innerWidth s) (innerHeight s) (integrate p))"

text \<open>The body of the loop over the pairs, and its two loops.\<close>

definition line_between :: "particle \<Rightarrow> particle \<Rightarrow> draw list" where
  "line_between a b =
     (let dx = jsub (p_x a) (p_x b);
          dy = jsub (p_y a) (p_y b);
          dist = jsqrt (jadd (jmul dx dx) (jmul dy dy))
      in if jlt dist maxDistance
         then (let alpha = jmul (Fin 0.12) (jsub (Fin 1) (jdiv dist maxDistance))
               in [StrokeLine (p_x a) (p_y a) (p_x b) (p_y b) alpha])
         else [])"

function lines_inner :: "particle list \<Rightarrow> nat \<Rightarrow> nat \<Rightarrow> draw list" where
  "lines_inner ps i j =
     (if j < length ps then line_between (ps ! i) (ps ! j) @ lines_inner ps i (Suc j)
      else [])"
  by pat_completeness auto
termination
  by (relation "measure (\<lambda>(ps, i, j). length ps - j)") auto

declare lines_inner.simps [simp del]

function lines_outer :: "particle list \<Rightarrow> nat \<Rightarrow> draw list" where
  "lines_outer ps i =
     (if i < length ps then lines_inner ps i (Suc i) @ lines_outer ps (Suc i) else [])"
  by pat_completeness auto
termination
  by (relation "measure (\<lambda>(ps, i). length ps - i)") auto

declare lines_outer.simps [simp del]

definition draw_lines :: "particle list \<Rightarrow> draw list" where
  "draw_lines ps = lines_outer ps 0"

text \<open>
  \<open>step\<close>. Each particle is moved and then drawn before the next one is moved; the points
  are logged in that order, after the clear and before the lines.
\<close>

definition step :: "state \<Rightarrow> state" where
  "step s =
     (if \<not> shouldRun s
      then clearCanvas ((cancelAnimationFrame (animationId s) s)\<lparr>animationId := None\<rparr>)
      else
        (let ps = map (update_particle s) (particles s);
             s1 = s\<lparr>particles := ps,
                    drawn := drawn s
                      @ [ClearRect (Fin 0) (Fin 0) (Fin (real (innerWidth s)))
                           (Fin (real (innerHeight s)))]
                      @ map draw_point ps
                      @ draw_lines ps\<rparr>;
             (handle, s2) = requestAnimationFrame s1
         in s2\<lparr>animationId := Some handle\<rparr>))"


section \<open>Listeners and initialisation\<close>

text \<open>
  What \<open>onMove\<close> reads of its event: a mouse event has \<open>clientX\<close> and \<open>clientY\<close> and no
  \<open>touches\<close>; a touch event has the list \<open>touches\<close> and no \<open>clientX\<close>.
\<close>

datatype move_event = MouseEvent real real | TouchEvent "(real \<times> real) list"

fun onMove :: "move_event \<Rightarrow> state \<Rightarrow> state" where
  "onMove (MouseEvent cx cy) s =
     s\<lparr>mouse := (mouse s)\<lparr>m_x := Some (Fin cx), m_y := Some (Fin cy)\<rparr>\<rparr>"
| "onMove (TouchEvent ((cx, cy) # _)) s =
     s\<lparr>mouse := (mouse s)\<lparr>m_x := Some (Fin cx), m_y := Some (Fin cy)\<rparr>\<rparr>"
| "onMove (TouchEvent []) s =
     s\<lparr>mouse := (mouse s)\<lparr>m_x := Some NaN, m_y := Some NaN\<rparr>\<rparr>"

definition onLeave :: "state \<Rightarrow> state" where
  "onLeave s = s\<lparr>mouse := (mouse s)\<lparr>m_x := None, m_y := None\<rparr>\<rparr>"

definition onVisibility :: "state \<Rightarrow> state" where
  "onVisibility s =
     (if hidden s
      then (if truthy_id (animationId s) then cancelAnimationFrame (animationId s) s else s)
             \<lparr>animationId := None\<rparr>
      else if \<not> truthy_id (animationId s) \<and> shouldRun s
           then (let (handle, s1) = requestAnimationFrame s in s1\<lparr>animationId := Some handle\<rparr>)
           else s)"

text \<open>The loop \<open>for(let i=0;i<target;i++) particles.push(createParticle())\<close> of \<open>init\<close>.\<close>

function initial_particles :: "nat \<Rightarrow> nat \<Rightarrow> state \<Rightarrow> state" where
  "initial_particles i target s =
     (if i < target then initial_particles (Suc i) target (push_particle s) else s)"
  by pat_completeness auto
termination
  by (relation "measure (\<lambda>(i, target, s). target - i)") auto

declare initial_particles.simps [simp del]

text \<open>
  \<open>init\<close>. \<open>!document.body.dataset.visuals\<close> holds for an unset attribute and for the
  empty string.
\<close>

definition init :: "state \<Rightarrow> state" where
  "init s =
     (let s1 = (if visuals s = None \<or> visuals s = Some [] then s\<lparr>visuals := Some ''on''\<rparr>
                else s)
      in if \<not> shouldRun s1 then s1
         else
           (let s2 = resize s1;
                target = target_count s2;
                s3 = initial_particles 0 target s2;
                s4 = s3\<lparr>listeners := listeners s3 @
                        [''resize'', ''mousemove'', ''touchmove'', ''mouseout'', ''touchend'',
                         ''visibilitychange'']\<rparr>;
                (handle, s5) = requestAnimationFrame s4
            in s5\<lparr>animationId := Some handle\<rparr>))"


section \<open>The host's events\<close>

text \<open>
  What the host does between two runs of the script's code: it changes what the script
  reads of the window and the document, it dispatches an event, or it runs a scheduled frame
  callback. An event reaches its handler only once \<open>init\<close> has registered the listener. A
  frame callback leaves the host's list before it runs.
\<close>

datatype event =
    SetViewport nat nat
  | SetPixelRatio real
  | SetMatchMedia "bool option"
  | SetVisuals "string option"
  | SetHidden bool
  | ResizeEv
  | MouseMove real real
  | TouchMove "(real \<times> real) list"
  | MouseOut
  | TouchEnd
  | VisibilityChange
  | AnimationFrame nat

definition dispatch :: "string \<Rightarrow> (state \<Rightarrow> state) \<Rightarrow> state \<Rightarrow> state" where
  "dispatch name handler s = (if name \<in> set (listeners s) then handler s else s)"

fun host_event :: "event \<Rightarrow> state \<Rightarrow> state" where
  "host_event (SetViewport iw ih) s = s\<lparr>innerWidth := iw, innerHeight := ih\<rparr>"
| "host_event (SetPixelRatio d) s = s\<lparr>devicePixelRatio := d\<rparr>"
| "host_event (SetMatchMedia m) s = s\<lparr>matchMedia := m\<rparr>"
| "host_event (SetVisuals v) s = s\<lparr>visuals := v\<rparr>"
| "host_event (SetHidden b) s = s\<lparr>hidden := b\<rparr>"
| "host_event ResizeEv s = dispatch ''resize'' resize s"
| "host_event (MouseMove cx cy) s = dispatch ''mousemove'' (onMove (MouseEvent cx cy)) s"
| "host_event (TouchMove ts) s = dispatch ''touchmove'' (onMove (TouchEvent ts)) s"
| "host_event MouseOut s = dispatch ''mouseout'' onLeave s"
| "host_event TouchEnd s = dispatch ''touchend'' onLeave s"
| "host_event VisibilityChange s = dispatch ''visibilitychange'' onVisibility s"
| "host_event (AnimationFrame n) s =
     (if n \<in> set (pending s) then step (s\<lparr>pending := removeAll n (pending s)\<rparr>) else s)"

text \<open>
  The script's variables and the host's lists as they are when the script is loaded, before
  \<open>init\<close> runs: \<open>particles = []\<close>, \<open>animationId = null\<close>,
  \<open>mouse = {x: null, y: null, radius: 90}\<close>, nothing scheduled, no listener.
\<close>

definition initial :: "state \<Rightarrow> bool" where
  "initial s \<longleftrightarrow>
     particles s = [] \<and> animationId s = None \<and> var_w s = 0 \<and> var_h s = 0
     \<and> mouse s = \<lparr>m_x = None, m_y = None, radius = Fin 90\<rparr>
     \<and> pending s = [] \<and> listeners s = []"

text \<open>The states the page can be in after \<open>init\<close> has run, between two runs of the script.\<close>

inductive reachable :: "state \<Rightarrow> bool" where
  after_init: "initial s \<Longrightarrow> reachable (init s)"
| after_event: "reachable s \<Longrightarrow> reachable (host_event e s)"


section \<open>Example pages\<close>

text \<open>
  A page just loaded, with the given viewport and attribute, no reduced-motion preference,
  a pixel ratio of 1, a canvas of the default size, and a random source that returns
  \<open>1/2\<close> each time.
\<close>

definition page :: "nat \<Rightarrow> nat \<Rightarrow> string option \<Rightarrow> state" where
  "page iw ih attr =
     \<lparr> innerWidth = iw, innerHeight = ih, devicePixelRatio = 1,
       matchMedia = Some False, visuals = attr, hidden = False,
       canvas_width = 300, canvas_height = 150, style_width = 300, style_height = 150,
       transform = 1, drawn = [], frame_counter = 0, pending = [], listeners = [],
       rnd = (\<lambda>k. 1 / 2), rnd_calls = 0, var_w = 0, var_h = 0,
       particles = [], animationId = None,
       mouse = \<lparr>m_x = None, m_y = None, radius = Fin 90\<rparr> \<rparr>"

text \<open>
  A particle at rest at \<open>(100, 100)\<close>, a pointer, and a running page as the frame callback
  with handle 1 finds it: the pointer is at the particle's position, \<open>animationId\<close> is 1,
  and the callback has left the host's list.
\<close>

definition resting :: particle where
  "resting = \<lparr>p_x = Fin 100, p_y = Fin 100, p_vx = Fin 0, p_vy = Fin 0, p_r = Fin 1\<rparr>"

definition pointer_at :: "real \<Rightarrow> real \<Rightarrow> mouse_t" where
  "pointer_at cx cy = \<lparr>m_x = Some (Fin cx), m_y = Some (Fin cy), radius = Fin 90\<rparr>"

definition under_pointer :: state where
  "under_pointer =
     (page 1920 1080 (Some ''on''))
       \<lparr>particles := [resting], mouse := pointer_at 100 100, frame_counter := 1,
        animationId := Some 1\<rparr>"


text \<open>A running page with no pointer and two particles at rest, 60 apart.\<close>

definition two_apart :: state where
  "two_apart =
     under_pointer
       \<lparr>particles := [resting, resting\<lparr>p_x := Fin 160\<rparr>],
        mouse := \<lparr>m_x = None, m_y = None, radius = Fin 90\<rparr>\<rparr>"

text \<open>
  A page of 2000 by 1000 at a pixel ratio of \<open>1/2\<close> (a browser zoomed out to 50%), just
  loaded; and the same page after \<open>init\<close>, one frame, the attribute set to \<open>off\<close>, and the
  next frame, which finds the gate closed.
\<close>

definition half_scale :: state where
  "half_scale = (page 2000 1000 None)\<lparr>devicePixelRatio := 1 / 2\<rparr>"

definition switched_off :: state where
  "switched_off =
     host_event (AnimationFrame 2)
       (host_event (SetVisuals (Some ''off''))
          (host_event (AnimationFrame 1) (init half_scale)))"

text \<open>
  The desktop page after \<open>init\<close>, after the tab was hidden and shown again, just before the
  listener for the second visibility change runs.
\<close>

definition shown_again :: state where
  "shown_again =
     host_event (SetHidden False)
       (host_event VisibilityChange
          (host_event (SetHidden True) (init (page 1920 1080 None))))"



section \<open>Auxiliary notions\<close>

text \<open>
  Two states agree on what the loops over \<open>particles\<close> leave alone: they change the
  particles and the random source only.
\<close>

definition same_host :: "state \<Rightarrow> state \<Rightarrow> bool" where
  "same_host s t \<longleftrightarrow>
     innerWidth t = innerWidth s \<and> innerHeight t = innerHeight s
     \<and> matchMedia t = matchMedia s \<and> visuals t = visuals s \<and> hidden t = hidden s
     \<and> pending t = pending s \<and> animationId t = animationId s
     \<and> frame_counter t = frame_counter s \<and> listeners t = listeners s
     \<and> drawn t = drawn s \<and> mouse t = mouse s"

text \<open>What \<open>init\<close> does to the attribute before it evaluates the run gate.\<close>

definition normalized :: "state \<Rightarrow> state" where
  "normalized s =
     (if visuals s = None \<or> visuals s = Some [] then s\<lparr>visuals := Some ''on''\<rparr> else s)"


text \<open>
  Between two runs of the script, \<open>animationId\<close> names the one scheduled frame, or is
  \<open>null\<close> and none is scheduled.
\<close>

definition scheduled_once :: "state \<Rightarrow> bool" where
  "scheduled_once s \<longleftrightarrow>
     (case animationId s of None \<Rightarrow> pending s = [] | Some n \<Rightarrow> n \<noteq> 0 \<and> pending s = [n])"

text \<open>The listeners that \<open>init\<close> registers.\<close>

definition init_listeners :: "string list" where
  "init_listeners =
     [''resize'', ''mousemove'', ''touchmove'', ''mouseout'', ''touchend'',
      ''visibilitychange'']"


section \<open>Properties\<close>

text \<open>
  C2. The run gate returns true exactly when the platform does not report a reduced-motion
  preference, the viewport is wider than 640, and the attribute \<open>data-visuals\<close> is not
  \<open>off\<close> (unset, or any other value, counts as enabled). The result depends on these three
  inputs only, and it is false for every viewport of width at most 640.
\<close>

theorem shouldRun_iff:
  "(shouldRun s \<longleftrightarrow>
      matchMedia s \<noteq> Some True \<and> 640 < innerWidth s \<and> visuals s \<noteq> Some ''off'')
   \<and> (innerWidth s \<le> 640 \<longrightarrow> \<not> shouldRun s)"
  by (auto simp: shouldRun_def)

subsection \<open>Pushing, growing, trimming\<close>

lemma push_particle_fields [simp]:
  "particles (push_particle s) = particles s @ [fst (createParticle s)]"
  "innerWidth (push_particle s) = innerWidth s"
  "innerHeight (push_particle s) = innerHeight s"
  "pending (push_particle s) = pending s"
  "animationId (push_particle s) = animationId s"
  "frame_counter (push_particle s) = frame_counter s"
  "listeners (push_particle s) = listeners s"
  "matchMedia (push_particle s) = matchMedia s"
  "visuals (push_particle s) = visuals s"
  "hidden (push_particle s) = hidden s"
  "drawn (push_particle s) = drawn s"
  "mouse (push_particle s) = mouse s"
  by (simp_all add: push_particle_def createParticle_def Let_def)

lemma length_grow: "length (particles (grow target s)) = max target (length (particles s))"
  by (induction target s rule: grow.induct) (subst grow.simps, simp)

lemma length_trim: "length (particles (trim target s)) = min target (length (particles s))"
  by (induction target s rule: trim.induct) (subst trim.simps, simp)

lemma length_initial_particles:
  "length (particles (initial_particles i target s)) = length (particles s) + (target - i)"
proof (induction i target s rule: initial_particles.induct)
  case (1 i target s)
  show ?case
  proof (cases "i < target")
    case True
    with "1.IH" show ?thesis by (subst initial_particles.simps) simp
  next
    case False
    then show ?thesis by (subst initial_particles.simps) simp
  qed
qed

lemma same_host_refl [simp]: "same_host s s"
  by (simp add: same_host_def)

lemma same_host_trans: "same_host s t \<Longrightarrow> same_host t u \<Longrightarrow> same_host s u"
  by (simp add: same_host_def)

lemma same_host_push: "same_host s (push_particle s)"
  by (simp add: same_host_def)

lemma same_host_grow: "same_host s (grow target s)"
proof (induction target s rule: grow.induct)
  case (1 target s)
  show ?case
  proof (cases "length (particles s) < target")
    case True
    then have "same_host (push_particle s) (grow target (push_particle s))"
      by (rule "1.IH")
    with same_host_push [of s] have "same_host s (grow target (push_particle s))"
      by (rule same_host_trans)
    with True show ?thesis by (subst grow.simps) simp
  next
    case False
    then show ?thesis by (subst grow.simps) simp
  qed
qed

lemma same_host_trim: "same_host s (trim target s)"
proof (induction target s rule: trim.induct)
  case (1 target s)
  show ?case
  proof (cases "target < length (particles s)")
    case True
    then have "same_host (s\<lparr>particles := butlast (particles s)\<rparr>)
                 (trim target (s\<lparr>particles := butlast (particles s)\<rparr>))"
      by (rule "1.IH")
    moreover have "same_host s (s\<lparr>particles := butlast (particles s)\<rparr>)"
      by (simp add: same_host_def)
    ultimately have "same_host s (trim target (s\<lparr>particles := butlast (particles s)\<rparr>))"
      using same_host_trans by blast
    with True show ?thesis by (subst trim.simps) simp
  next
    case False
    then show ?thesis by (subst trim.simps) simp
  qed
qed

lemma same_host_initial_particles: "same_host s (initial_particles i target s)"
proof (induction i target s rule: initial_particles.induct)
  case (1 i target s)
  show ?case
  proof (cases "i < target")
    case True
    then have "same_host (push_particle s) (initial_particles (Suc i) target (push_particle s))"
      by (rule "1.IH")
    with same_host_push [of s]
    have "same_host s (initial_particles (Suc i) target (push_particle s))"
      by (rule same_host_trans)
    with True show ?thesis by (subst initial_particles.simps) simp
  next
    case False
    then show ?thesis by (subst initial_particles.simps) simp
  qed
qed

lemma same_host_resize: "same_host s (resize s)"
proof -
  let ?dpr = "if devicePixelRatio s = 0 then 1 else devicePixelRatio s"
  let ?cw = "max 1 \<lfloor>real (innerWidth s) * ?dpr\<rfloor>"
  let ?ch = "max 1 \<lfloor>real (innerHeight s) * ?dpr\<rfloor>"
  let ?s1 = "s\<lparr>var_w := ?cw, canvas_width := ?cw, var_h := ?ch, canvas_height := ?ch,
                 style_width := innerWidth s, style_height := innerHeight s,
                 transform := ?dpr\<rparr>"
  have "same_host s ?s1" by (simp add: same_host_def)
  moreover have "same_host ?s1 (grow (target_count ?s1) ?s1)" by (rule same_host_grow)
  moreover have "same_host (grow (target_count ?s1) ?s1)
                   (trim (target_count ?s1) (grow (target_count ?s1) ?s1))"
    by (rule same_host_trim)
  ultimately have "same_host s (trim (target_count ?s1) (grow (target_count ?s1) ?s1))"
    using same_host_trans by blast
  then show ?thesis by (simp add: resize_def Let_def)
qed

lemma target_count_div:
  "target_count s = max 30 (min 120 (innerWidth s * innerHeight s div 16000))"
proof -
  have "\<lfloor>real (innerWidth s * innerHeight s) / 16000\<rfloor>
        = int (innerWidth s * innerHeight s div 16000)"
    using floor_divide_of_nat_eq [of "innerWidth s * innerHeight s" 16000, where ?'a = real]
    by simp
  then show ?thesis
    unfolding target_count_def Let_def by simp
qed

lemma target_count_same_host: "same_host s t \<Longrightarrow> target_count t = target_count s"
  by (simp add: same_host_def target_count_def)

lemma shouldRun_same_host: "same_host s t \<Longrightarrow> shouldRun t = shouldRun s"
  by (simp add: same_host_def shouldRun_def)

lemma length_resize: "length (particles (resize s)) = target_count s"
  by (simp add: resize_def Let_def length_trim length_grow target_count_def)

text \<open>
  C3. For every viewport area \<open>A\<close> the target particle count that \<open>resize\<close> computes
  is \<open>max(30, min(120, floor(A / 16000)))\<close>, and right after every call of \<open>resize\<close>
  the particle array has that length; for a viewport of 1920 by 1080 the target is 120.
\<close>

theorem resize_particle_count:
  "length (particles (resize s))
     = max 30 (min 120 (innerWidth s * innerHeight s div 16000))
   \<and> target_count s = max 30 (min 120 (innerWidth s * innerHeight s div 16000))
   \<and> target_count (s\<lparr>innerWidth := 1920, innerHeight := 1080\<rparr>) = 120"
proof -
  have "target_count (s\<lparr>innerWidth := 1920, innerHeight := 1080\<rparr>) = 120"
    by (simp add: target_count_div)
  then show ?thesis
    using length_resize [of s] target_count_div [of s] by simp
qed

subsection \<open>init\<close>

lemma shouldRun_normalized: "shouldRun (normalized s) = shouldRun s"
  by (auto simp: normalized_def shouldRun_def)

lemma init_denied: "\<not> shouldRun s \<Longrightarrow> init s = normalized s"
  using shouldRun_normalized [of s] by (simp add: init_def normalized_def Let_def)

lemma initial_page: "initial (page iw ih attr)"
  by (simp add: initial_def page_def)

lemma shouldRun_page: "shouldRun (page iw ih attr) \<longleftrightarrow> 640 < iw \<and> attr \<noteq> Some ''off''"
  by (auto simp: shouldRun_def page_def)

lemma init_granted:
  assumes "shouldRun s"
  shows "\<exists>t. same_host (normalized s) t \<and> length (particles t) = 2 * target_count s
           \<and> init s = t\<lparr>listeners := listeners t @ init_listeners,
                      frame_counter := Suc (frame_counter t),
                      pending := pending t @ [Suc (frame_counter t)],
                      animationId := Some (Suc (frame_counter t))\<rparr>"
proof -
  let ?s1 = "normalized s"
  let ?s2 = "resize ?s1"
  let ?t = "initial_particles 0 (target_count ?s2) ?s2"
  have run: "shouldRun ?s1" using assms by (simp add: shouldRun_normalized)
  have t1: "target_count ?s1 = target_count s"
    by (simp add: normalized_def target_count_def)
  have t2: "target_count ?s2 = target_count s"
    using target_count_same_host [OF same_host_resize [of ?s1]] t1 by simp
  have "same_host ?s1 ?t"
    using same_host_trans [OF same_host_resize same_host_initial_particles] .
  moreover have "length (particles ?t) = 2 * target_count s"
    by (simp add: length_initial_particles length_resize t1 t2)
  moreover have "init s = ?t\<lparr>listeners := listeners ?t @ init_listeners,
                      frame_counter := Suc (frame_counter ?t),
                      pending := pending ?t @ [Suc (frame_counter ?t)],
                      animationId := Some (Suc (frame_counter ?t))\<rparr>"
    using run
    by (simp add: init_def normalized_def Let_def requestAnimationFrame_def init_listeners_def)
  ultimately show ?thesis by blast
qed

lemma init_fields:
  assumes "shouldRun s"
  shows "pending (init s) = pending s @ [Suc (frame_counter s)]"
    and "animationId (init s) = Some (Suc (frame_counter s))"
    and "frame_counter (init s) = Suc (frame_counter s)"
    and "listeners (init s) = listeners s @ init_listeners"
    and "length (particles (init s)) = 2 * target_count s"
    and "innerWidth (init s) = innerWidth s"
    and "innerHeight (init s) = innerHeight s"
    and "matchMedia (init s) = matchMedia s"
    and "visuals (init s) = visuals (normalized s)"
    and "hidden (init s) = hidden s"
proof -
  obtain t where t: "same_host (normalized s) t" "length (particles t) = 2 * target_count s"
    "init s = t\<lparr>listeners := listeners t @ init_listeners,
                      frame_counter := Suc (frame_counter t),
                      pending := pending t @ [Suc (frame_counter t)],
                      animationId := Some (Suc (frame_counter t))\<rparr>"
    using init_granted [OF assms] by blast
  have n: "pending (normalized s) = pending s" "frame_counter (normalized s) = frame_counter s"
    "listeners (normalized s) = listeners s" "innerWidth (normalized s) = innerWidth s"
    "innerHeight (normalized s) = innerHeight s" "matchMedia (normalized s) = matchMedia s"
    "hidden (normalized s) = hidden s"
    by (simp_all add: normalized_def)
  show "pending (init s) = pending s @ [Suc (frame_counter s)]"
    and "animationId (init s) = Some (Suc (frame_counter s))"
    and "frame_counter (init s) = Suc (frame_counter s)"
    and "listeners (init s) = listeners s @ init_listeners"
    and "length (particles (init s)) = 2 * target_count s"
    and "innerWidth (init s) = innerWidth s"
    and "innerHeight (init s) = innerHeight s"
    and "matchMedia (init s) = matchMedia s"
    and "visuals (init s) = visuals (normalized s)"
    and "hidden (init s) = hidden s"
    using t n by (simp_all add: same_host_def)
qed

text \<open>
  C1. The particle count always equals \<open>clamp(30, 120, floor(viewportArea / 16000))\<close>; in
  particular, right after \<open>init\<close> has run with the run gate permitting, the particle set
  holds that target count for the current viewport. Evaluated for a page of 1920 by 1080
  with no reduced-motion preference and the attribute unset: the gate permits, the target
  is 120, and \<open>init\<close> leaves 240 particles, since it pushes the target count again after
  \<open>resize\<close> has already filled the array.
\<close>
theorem init_doubles_particles:
  "shouldRun (page 1920 1080 None)
   \<and> target_count (init (page 1920 1080 None)) = 120
   \<and> length (particles (init (page 1920 1080 None))) = 240"
proof -
  have run: "shouldRun (page 1920 1080 None)"
    by (simp add: shouldRun_page)
  have "target_count (page 1920 1080 None) = 120"
    by (simp add: target_count_div page_def)
  moreover have "target_count (init (page 1920 1080 None)) = target_count (page 1920 1080 None)"
    by (simp add: target_count_def init_fields [OF run])
  ultimately show ?thesis
    using run by (simp add: init_fields [OF run])
qed

text \<open>
  C9. If the run gate denies running at \<open>init\<close> time, \<open>init\<close> returns with the state
  unchanged but for the normalised attribute: no particle is allocated, no listener is
  registered, no frame is scheduled.
\<close>
theorem init_gate_denied:
  assumes "\<not> shouldRun s"
  shows "init s = (if visuals s = None \<or> visuals s = Some [] then s\<lparr>visuals := Some ''on''\<rparr> else s)
    \<and> particles (init s) = particles s \<and> listeners (init s) = listeners s
    \<and> pending (init s) = pending s \<and> animationId (init s) = animationId s
    \<and> frame_counter (init s) = frame_counter s"
  using init_denied [OF assms] by (simp add: normalized_def)

theorem init_gate_denied_witness:
  "\<not> shouldRun (page 1920 1080 (Some ''off''))
   \<and> init (page 1920 1080 (Some ''off'')) = page 1920 1080 (Some ''off'')
   \<and> particles (init (page 1920 1080 (Some ''off''))) = []
   \<and> listeners (init (page 1920 1080 (Some ''off''))) = []
   \<and> pending (init (page 1920 1080 (Some ''off''))) = []
   \<and> animationId (init (page 1920 1080 (Some ''off''))) = None"
proof -
  have denied: "\<not> shouldRun (page 1920 1080 (Some ''off''))"
    by (simp add: shouldRun_page)
  have "visuals (page 1920 1080 (Some ''off'')) = Some ''off''"
    by (simp add: page_def)
  then show ?thesis
    using denied init_gate_denied [OF denied] by (simp add: page_def)
qed

lemma step_schedule:
  "pending (step s) =
     (if shouldRun s then pending s @ [Suc (frame_counter s)]
      else (case animationId s of None \<Rightarrow> pending s | Some n \<Rightarrow> removeAll n (pending s)))"
  "animationId (step s) = (if shouldRun s then Some (Suc (frame_counter s)) else None)"
  by (simp_all add: step_def clearCanvas_def cancelAnimationFrame_def Let_def
        requestAnimationFrame_def split: option.splits)

lemma scheduled_once_same_host: "same_host s t \<Longrightarrow> scheduled_once t = scheduled_once s"
  by (auto simp: same_host_def scheduled_once_def split: option.splits)

lemma scheduled_once_init:
  assumes "initial s"
  shows "scheduled_once (init s)"
proof (cases "shouldRun s")
  case True
  with assms show ?thesis
    by (simp add: scheduled_once_def init_fields initial_def)
next
  case False
  with assms show ?thesis
    by (simp add: scheduled_once_def init_denied initial_def normalized_def)
qed

lemma scheduled_once_onVisibility:
  assumes "scheduled_once s"
  shows "scheduled_once (onVisibility s)"
  using assms
  by (auto simp: scheduled_once_def onVisibility_def truthy_id_def cancelAnimationFrame_def
        requestAnimationFrame_def Let_def split: option.splits)

lemma scheduled_once_frame:
  assumes "scheduled_once s"
  shows "scheduled_once (host_event (AnimationFrame n) s)"
  using assms
  by (auto simp: scheduled_once_def step_schedule split: option.splits)

lemma scheduled_once_event:
  assumes "scheduled_once s"
  shows "scheduled_once (host_event e s)"
proof (cases e)
  case ResizeEv
  then show ?thesis
    using assms scheduled_once_same_host [OF same_host_resize [of s]]
    by (simp add: dispatch_def)
next
  case (MouseMove cx cy)
  then show ?thesis using assms
    by (auto simp: dispatch_def scheduled_once_def split: option.splits)
next
  case (TouchMove ts)
  then show ?thesis using assms
    by (cases ts) (auto simp: dispatch_def scheduled_once_def split: option.splits)
next
  case VisibilityChange
  then show ?thesis using assms scheduled_once_onVisibility
    by (simp add: dispatch_def)
next
  case (AnimationFrame n)
  then show ?thesis using assms scheduled_once_frame by blast
qed (use assms in \<open>auto simp: dispatch_def scheduled_once_def onLeave_def split: option.splits\<close>)

lemma reachable_scheduled_once: "reachable s \<Longrightarrow> scheduled_once s"
  by (induction rule: reachable.induct) (simp_all add: scheduled_once_init scheduled_once_event)

text \<open>
  C4. In every reachable state at most one frame callback is scheduled. When the document
  becomes hidden, the scheduled frame is cancelled and \<open>animationId\<close> is \<open>null\<close>. When
  it is visible, the gate passes and nothing is scheduled, \<open>onVisibility\<close> schedules exactly
  one frame; when a frame is scheduled already, it schedules none.
\<close>
theorem one_frame_scheduled:
  assumes "reachable s"
  shows "length (pending s) \<le> 1
    \<and> pending (onVisibility (s\<lparr>hidden := True\<rparr>)) = []
    \<and> animationId (onVisibility (s\<lparr>hidden := True\<rparr>)) = None
    \<and> (\<not> hidden s \<and> shouldRun s \<and> pending s = [] \<longrightarrow>
         pending (onVisibility s) = [Suc (frame_counter s)]
         \<and> animationId (onVisibility s) = Some (Suc (frame_counter s)))
    \<and> (\<not> hidden s \<and> pending s \<noteq> [] \<longrightarrow> onVisibility s = s)"
proof -
  have inv: "scheduled_once s"
    using assms by (rule reachable_scheduled_once)
  have "length (pending s) \<le> 1"
    using inv by (auto simp: scheduled_once_def split: option.splits)
  moreover have "pending (onVisibility (s\<lparr>hidden := True\<rparr>)) = []
    \<and> animationId (onVisibility (s\<lparr>hidden := True\<rparr>)) = None"
    using inv
    by (auto simp: scheduled_once_def onVisibility_def truthy_id_def cancelAnimationFrame_def
          split: option.splits)
  moreover have "\<not> hidden s \<and> shouldRun s \<and> pending s = [] \<longrightarrow>
         pending (onVisibility s) = [Suc (frame_counter s)]
         \<and> animationId (onVisibility s) = Some (Suc (frame_counter s))"
    using inv
    by (auto simp: scheduled_once_def onVisibility_def truthy_id_def requestAnimationFrame_def
          Let_def split: option.splits)
  moreover have "\<not> hidden s \<and> pending s \<noteq> [] \<longrightarrow> onVisibility s = s"
    using inv
    by (auto simp: scheduled_once_def onVisibility_def truthy_id_def split: option.splits)
  ultimately show ?thesis by blast
qed


section \<open>Instances\<close>

lemma page_fields [simp]:
  "innerWidth (page iw ih attr) = iw"
  "innerHeight (page iw ih attr) = ih"
  "matchMedia (page iw ih attr) = Some False"
  "visuals (page iw ih attr) = attr"
  "hidden (page iw ih attr) = False"
  "pending (page iw ih attr) = []"
  "frame_counter (page iw ih attr) = 0"
  "listeners (page iw ih attr) = []"
  "particles (page iw ih attr) = []"
  "animationId (page iw ih attr) = None"
  "drawn (page iw ih attr) = []"
  by (simp_all add: page_def)

lemma reachable_init_page: "reachable (init (page iw ih attr))"
  by (rule reachable.after_init) (rule initial_page)

lemma reachable_shown_again: "reachable shown_again"
  unfolding shown_again_def by (intro reachable.after_event reachable_init_page)

lemma init_desktop_fields:
  "pending (init (page 1920 1080 None)) = [1]"
  "animationId (init (page 1920 1080 None)) = Some 1"
  "frame_counter (init (page 1920 1080 None)) = 1"
  "listeners (init (page 1920 1080 None)) = init_listeners"
  "hidden (init (page 1920 1080 None)) = False"
  "innerWidth (init (page 1920 1080 None)) = 1920"
  "matchMedia (init (page 1920 1080 None)) = Some False"
  "visuals (init (page 1920 1080 None)) = Some ''on''"
proof -
  have run: "shouldRun (page 1920 1080 None)"
    by (simp add: shouldRun_page)
  show "pending (init (page 1920 1080 None)) = [1]"
    "animationId (init (page 1920 1080 None)) = Some 1"
    "frame_counter (init (page 1920 1080 None)) = 1"
    "listeners (init (page 1920 1080 None)) = init_listeners"
    "hidden (init (page 1920 1080 None)) = False"
    "innerWidth (init (page 1920 1080 None)) = 1920"
    "matchMedia (init (page 1920 1080 None)) = Some False"
    "visuals (init (page 1920 1080 None)) = Some ''on''"
    by (simp_all add: init_fields [OF run] normalized_def)
qed

lemma shown_again_fields:
  "hidden shown_again = False" "shouldRun shown_again" "pending shown_again = []"
  "frame_counter shown_again = 1"
  by (simp_all add: shown_again_def dispatch_def init_desktop_fields init_listeners_def
        onVisibility_def truthy_id_def cancelAnimationFrame_def shouldRun_def)

theorem one_frame_scheduled_witness:
  "reachable shown_again \<and> \<not> hidden shown_again \<and> shouldRun shown_again
   \<and> pending shown_again = []
   \<and> pending (onVisibility shown_again) = [2]
   \<and> animationId (onVisibility shown_again) = Some 2
   \<and> reachable (init (page 1920 1080 None))
   \<and> \<not> hidden (init (page 1920 1080 None))
   \<and> pending (init (page 1920 1080 None)) = [1]
   \<and> onVisibility (init (page 1920 1080 None)) = init (page 1920 1080 None)
   \<and> pending (onVisibility (init (page 1920 1080 None)\<lparr>hidden := True\<rparr>)) = []"
proof -
  show ?thesis
    using one_frame_scheduled [OF reachable_shown_again]
      one_frame_scheduled [OF reachable_init_page [of 1920 1080 None]]
      reachable_shown_again reachable_init_page [of 1920 1080 None]
    by (simp add: shown_again_fields init_desktop_fields)
qed

theorem shouldRun_iff_witness:
  "innerWidth (page 600 800 None) \<le> 640 \<and> \<not> shouldRun (page 600 800 None)
   \<and> shouldRun (page 1920 1080 None)"
  using shouldRun_iff [of "page 600 800 None"] shouldRun_iff [of "page 1920 1080 None"]
  by simp


section \<open>The frame step: lines, wrapping, repulsion\<close>

subsection \<open>What a running step does to the particles and to the canvas\<close>

lemma repel_position [simp]:
  "p_x (repel m p) = p_x p" "p_y (repel m p) = p_y p" "p_r (repel m p) = p_r p"
  by (simp_all add: repel_def Let_def split: option.splits)

lemma particles_step:
  "shouldRun s \<Longrightarrow> particles (step s) = map (update_particle s) (particles s)"
  by (simp add: step_def Let_def requestAnimationFrame_def)

lemma drawn_step:
  "shouldRun s \<Longrightarrow>
   drawn (step s) =
     drawn s
     @ [ClearRect (Fin 0) (Fin 0) (Fin (real (innerWidth s))) (Fin (real (innerHeight s)))]
     @ map draw_point (particles (step s))
     @ draw_lines (particles (step s))"
  by (simp add: step_def Let_def requestAnimationFrame_def)

lemma step_host_fields:
  "innerWidth (step s) = innerWidth s"
  "innerHeight (step s) = innerHeight s"
  "matchMedia (step s) = matchMedia s"
  "visuals (step s) = visuals s"
  "canvas_width (step s) = canvas_width s"
  "canvas_height (step s) = canvas_height s"
  "transform (step s) = transform s"
  "listeners (step s) = listeners s"
  "frame_counter (step s) = (if shouldRun s then Suc (frame_counter s) else frame_counter s)"
  by (simp_all add: step_def clearCanvas_def cancelAnimationFrame_def Let_def
        requestAnimationFrame_def split: option.splits)

subsection \<open>The loops over the pairs\<close>

lemma lines_inner_concat:
  "lines_inner ps i j = concat (map (\<lambda>k. line_between (ps ! i) (ps ! k)) [j..<length ps])"
proof (induction ps i j rule: lines_inner.induct)
  case (1 ps i j)
  show ?case
  proof (cases "j < length ps")
    case True
    then have "[j..<length ps] = j # [Suc j..<length ps]"
      by (rule upt_conv_Cons)
    with True "1.IH" show ?thesis
      by (subst lines_inner.simps) simp
  next
    case False
    then show ?thesis by (subst lines_inner.simps) simp
  qed
qed

lemma lines_outer_concat:
  "lines_outer ps i = concat (map (\<lambda>a. lines_inner ps a (Suc a)) [i..<length ps])"
proof (induction ps i rule: lines_outer.induct)
  case (1 ps i)
  show ?case
  proof (cases "i < length ps")
    case True
    then have "[i..<length ps] = i # [Suc i..<length ps]"
      by (rule upt_conv_Cons)
    with True "1.IH" show ?thesis
      by (subst lines_outer.simps) simp
  next
    case False
    then show ?thesis by (subst lines_outer.simps) simp
  qed
qed

lemma line_between_finite:
  assumes "p_x a = Fin ax" "p_y a = Fin ay" "p_x b = Fin bx" "p_y b = Fin by"
  shows "line_between a b =
     (if sqrt ((ax - bx)\<^sup>2 + (ay - by)\<^sup>2) < 120
      then [StrokeLine (Fin ax) (Fin ay) (Fin bx) (Fin by)
              (Fin (0.12 * (1 - sqrt ((ax - bx)\<^sup>2 + (ay - by)\<^sup>2) / 120)))]
      else [])"
proof -
  have nonneg: "\<not> (ax - bx) * (ax - bx) + (ay - by) * (ay - by) < 0"
    by (simp add: not_less)
  show ?thesis
    using assms nonneg
    by (simp add: line_between_def jsub_def maxDistance_def Let_def power2_eq_square)
qed

lemma sqrt_3600: "sqrt 3600 = 60"
  by (rule real_sqrt_unique) simp_all

lemma line_between_not_finite:
  assumes "\<not> (is_finite (p_x a) \<and> is_finite (p_y a) \<and> is_finite (p_x b) \<and> is_finite (p_y b))"
  shows "line_between a b = []"
proof -
  have sq: "jmul u u = PInf \<or> jmul u u = NaN \<or> (\<exists>r. 0 \<le> r \<and> jmul u u = Fin r)" for u
    by (cases u) (simp_all add: signed_inf_def)
  have sq_inf: "jmul u u = PInf \<or> jmul u u = NaN" if "\<not> is_finite u" for u
    using that by (cases u) (simp_all add: is_finite_def)
  have diff: "\<not> is_finite (jsub u v)" if "\<not> (is_finite u \<and> is_finite v)" for u v
    using that by (cases u; cases v) (simp_all add: is_finite_def jsub_def)
  have far: "\<not> jlt (jsqrt (jadd u v)) maxDistance"
    if "u = PInf \<or> u = NaN \<or> v = PInf \<or> v = NaN"
      and "u = PInf \<or> u = NaN \<or> (\<exists>r. 0 \<le> r \<and> u = Fin r)"
      and "v = PInf \<or> v = NaN \<or> (\<exists>r. 0 \<le> r \<and> v = Fin r)" for u v
    using that by (auto simp: maxDistance_def)
  let ?dx = "jsub (p_x a) (p_x b)" and ?dy = "jsub (p_y a) (p_y b)"
  have "\<not> is_finite ?dx \<or> \<not> is_finite ?dy"
    using assms diff by blast
  then have "jmul ?dx ?dx = PInf \<or> jmul ?dx ?dx = NaN \<or> jmul ?dy ?dy = PInf \<or> jmul ?dy ?dy = NaN"
    using sq_inf by blast
  then have "\<not> jlt (jsqrt (jadd (jmul ?dx ?dx) (jmul ?dy ?dy))) maxDistance"
    using far sq by blast
  then show ?thesis
    by (simp add: line_between_def Let_def)
qed

text \<open>
  C7. A running frame step draws, after the points, what the two loops over the pairs
  give for the particles as the step has moved them. The loops visit every unordered pair
  once, in the order of the indices, and draw what \<open>line_between\<close> gives for the pair. For
  a pair at Euclidean distance \<open>d\<close> that is one line when \<open>d < 120\<close>, with opacity
  \<open>0.12 * (1 - d / 120)\<close>, which falls linearly to 0 at the threshold, and no line
  otherwise; a pair with a coordinate that is not a finite number has no distance and gets no
  line. At \<open>d = 60\<close> the opacity is 0.06.
\<close>

theorem lines_between_close_pairs:
  "(shouldRun s \<longrightarrow>
      drawn (step s) =
        drawn s
        @ [ClearRect (Fin 0) (Fin 0) (Fin (real (innerWidth s))) (Fin (real (innerHeight s)))]
        @ map draw_point (particles (step s))
        @ draw_lines (particles (step s)))
   \<and> draw_lines ps =
     concat (map (\<lambda>i. concat (map (\<lambda>j. line_between (ps ! i) (ps ! j)) [Suc i..<length ps]))
       [0..<length ps])
   \<and> (\<forall>ax ay bx by.
         p_x a = Fin ax \<and> p_y a = Fin ay \<and> p_x b = Fin bx \<and> p_y b = Fin by \<longrightarrow>
         line_between a b =
           (if sqrt ((ax - bx)\<^sup>2 + (ay - by)\<^sup>2) < 120
            then [StrokeLine (Fin ax) (Fin ay) (Fin bx) (Fin by)
                    (Fin (0.12 * (1 - sqrt ((ax - bx)\<^sup>2 + (ay - by)\<^sup>2) / 120)))]
            else []))
   \<and> (\<not> (is_finite (p_x a) \<and> is_finite (p_y a) \<and> is_finite (p_x b) \<and> is_finite (p_y b))
        \<longrightarrow> line_between a b = [])"
proof -
  have "draw_lines ps =
     concat (map (\<lambda>i. concat (map (\<lambda>j. line_between (ps ! i) (ps ! j)) [Suc i..<length ps]))
       [0..<length ps])"
    by (simp add: draw_lines_def lines_outer_concat lines_inner_concat)
  then show ?thesis
    using line_between_finite [of a _ _ b] line_between_not_finite [of a b] drawn_step [of s]
    by blast
qed

theorem lines_between_close_pairs_witness:
  "shouldRun two_apart
   \<and> particles (step two_apart) = [resting, resting\<lparr>p_x := Fin 160\<rparr>]
   \<and> p_x resting = Fin 100 \<and> p_y resting = Fin 100
   \<and> p_x (resting\<lparr>p_x := Fin 160\<rparr>) = Fin 160 \<and> p_y (resting\<lparr>p_x := Fin 160\<rparr>) = Fin 100
   \<and> sqrt ((100 - 160)\<^sup>2 + (100 - 100)\<^sup>2) = (60 :: real)
   \<and> drawn (step two_apart)
       = [ClearRect (Fin 0) (Fin 0) (Fin 1920) (Fin 1080),
          FillCircle (Fin 100) (Fin 100) (Fin 1), FillCircle (Fin 160) (Fin 100) (Fin 1),
          StrokeLine (Fin 100) (Fin 100) (Fin 160) (Fin 100) (Fin 0.06)]
   \<and> \<not> is_finite (p_x (resting\<lparr>p_x := NaN\<rparr>))
   \<and> line_between (resting\<lparr>p_x := NaN\<rparr>) resting = []"
proof -
  have run: "shouldRun two_apart"
    by (simp add: two_apart_def under_pointer_def shouldRun_def)
  have ps: "particles (step two_apart) = [resting, resting\<lparr>p_x := Fin 160\<rparr>]"
    by (simp add: particles_step [OF run])
       (simp add: two_apart_def under_pointer_def update_particle_def integrate_def wrap_def
          jgt_def repel_def resting_def)
  have c: "p_x resting = Fin 100 \<and> p_y resting = Fin 100
      \<and> p_x (resting\<lparr>p_x := Fin 160\<rparr>) = Fin 160 \<and> p_y (resting\<lparr>p_x := Fin 160\<rparr>) = Fin 100"
    by (simp add: resting_def)
  have d: "sqrt ((100 - 160)\<^sup>2 + (100 - 100)\<^sup>2) = (60 :: real)"
    by (simp add: sqrt_3600)
  have n: "\<not> is_finite (p_x (resting\<lparr>p_x := NaN\<rparr>))"
    by (simp add: is_finite_def)
  have s: "drawn two_apart = []" "innerWidth two_apart = 1920" "innerHeight two_apart = 1080"
    by (simp_all add: two_apart_def under_pointer_def)
  have points: "draw_point resting = FillCircle (Fin 100) (Fin 100) (Fin 1)"
    "draw_point (resting\<lparr>p_x := Fin 160\<rparr>) = FillCircle (Fin 160) (Fin 100) (Fin 1)"
    by (simp_all add: draw_point_def resting_def)
  show ?thesis
    using lines_between_close_pairs
      [of two_apart "[resting, resting\<lparr>p_x := Fin 160\<rparr>]" resting
        "resting\<lparr>p_x := Fin 160\<rparr>"]
      lines_between_close_pairs [of two_apart "[]" "resting\<lparr>p_x := NaN\<rparr>" resting]
      run c d n
    by (simp add: ps s points upt_rec)
qed

subsection \<open>Wrapping\<close>

lemma wrap_x_cases:
  "p_x (wrap iw ih p) =
     (case p_x p of
        Fin a \<Rightarrow> if a < - 10 then Fin (real iw + 10)
                 else if real iw + 10 < a then Fin (- 10) else Fin a
      | PInf \<Rightarrow> Fin (- 10)
      | NInf \<Rightarrow> Fin (real iw + 10)
      | NaN \<Rightarrow> NaN)"
  by (cases "p_x p") (simp_all add: wrap_def Let_def jgt_def)

lemma wrap_y_cases:
  "p_y (wrap iw ih p) =
     (case p_y p of
        Fin a \<Rightarrow> if a < - 10 then Fin (real ih + 10)
                 else if real ih + 10 < a then Fin (- 10) else Fin a
      | PInf \<Rightarrow> Fin (- 10)
      | NInf \<Rightarrow> Fin (real ih + 10)
      | NaN \<Rightarrow> NaN)"
  by (cases "p_y p") (simp_all add: wrap_def Let_def jgt_def)

lemma wrap_x_in_bounds:
  assumes "p_x p \<noteq> NaN"
  shows "jbetween (Fin (- 10)) (p_x (wrap iw ih p)) (Fin (real iw + 10))"
  using assms by (cases "p_x p") (auto simp: wrap_x_cases jbetween_def)

lemma wrap_y_in_bounds:
  assumes "p_y p \<noteq> NaN"
  shows "jbetween (Fin (- 10)) (p_y (wrap iw ih p)) (Fin (real ih + 10))"
  using assms by (cases "p_y p") (auto simp: wrap_y_cases jbetween_def)

lemma wrap_velocity [simp]:
  "p_vx (wrap iw ih p) = p_vx p" "p_vy (wrap iw ih p) = p_vy p" "p_r (wrap iw ih p) = p_r p"
  by (simp_all add: wrap_def Let_def)

text \<open>
  What the wrap phase of a running step guarantees: every coordinate that is a number
  after the integration (finite or infinite, not NaN) lies within the margin, \<open>x\<close> in
  \<open>[-10, width + 10]\<close> and \<open>y\<close> in \<open>[-10, height + 10]\<close>. Each axis wraps on its own: a
  coordinate below \<open>-10\<close> is set to the opposite edge plus 10, one above the edge plus 10
  is set to \<open>-10\<close>, any other is kept, so that positions within
  \<open>[0, width] \<times> [0, height]\<close> are not guaranteed. A NaN stays a NaN. The repulsion that
  follows in the same step does not move the particle.
\<close>

lemma wrap_keeps_numbers_within_margin:
  assumes "shouldRun s" and "i < length (particles s)"
    and "p = integrate (particles s ! i)" and "q = particles (step s) ! i"
  shows "(p_x p \<noteq> NaN \<longrightarrow> jbetween (Fin (- 10)) (p_x q) (Fin (real (innerWidth s) + 10)))
     \<and> (p_y p \<noteq> NaN \<longrightarrow> jbetween (Fin (- 10)) (p_y q) (Fin (real (innerHeight s) + 10)))
     \<and> p_x q =
         (case p_x p of
            Fin a \<Rightarrow> if a < - 10 then Fin (real (innerWidth s) + 10)
                     else if real (innerWidth s) + 10 < a then Fin (- 10) else Fin a
          | PInf \<Rightarrow> Fin (- 10)
          | NInf \<Rightarrow> Fin (real (innerWidth s) + 10)
          | NaN \<Rightarrow> NaN)
     \<and> p_y q =
         (case p_y p of
            Fin a \<Rightarrow> if a < - 10 then Fin (real (innerHeight s) + 10)
                     else if real (innerHeight s) + 10 < a then Fin (- 10) else Fin a
          | PInf \<Rightarrow> Fin (- 10)
          | NInf \<Rightarrow> Fin (real (innerHeight s) + 10)
          | NaN \<Rightarrow> NaN)"
proof -
  have q: "q = repel (mouse s) (wrap (innerWidth s) (innerHeight s) p)"
    using assms by (simp add: particles_step update_particle_def)
  have x: "p_x q = p_x (wrap (innerWidth s) (innerHeight s) p)"
    and y: "p_y q = p_y (wrap (innerWidth s) (innerHeight s) p)"
    by (simp_all add: q)
  have "p_x p \<noteq> NaN \<longrightarrow> jbetween (Fin (- 10)) (p_x q) (Fin (real (innerWidth s) + 10))"
    unfolding x using wrap_x_in_bounds by blast
  moreover
  have "p_y p \<noteq> NaN \<longrightarrow> jbetween (Fin (- 10)) (p_y q) (Fin (real (innerHeight s) + 10))"
    unfolding y using wrap_y_in_bounds by blast
  ultimately show ?thesis
    unfolding x y using wrap_x_cases wrap_y_cases by blast
qed

text \<open>
  The two steps that lead out of the margin, for any list of particles and any index: a
  particle that the step finds at the pointer's position after moving and wrapping leaves
  the step with a NaN velocity, and a particle with a NaN velocity leaves the next step
  with a NaN position.
\<close>

lemma jadd_NaN_right [simp]: "jadd a NaN = NaN"
  by (cases a) simp_all

lemma step_at_pointer:
  assumes "shouldRun s" and "i < length (particles s)"
    and "q = wrap (innerWidth s) (innerHeight s) (integrate (particles s ! i))"
    and "p_x q = Fin cx" "p_y q = Fin cy"
    and "m_x (mouse s) = Some (Fin cx)" "m_y (mouse s) = Some (Fin cy)"
    and "radius (mouse s) = Fin 90"
  shows "p_vx (particles (step s) ! i) = NaN \<and> p_vy (particles (step s) ! i) = NaN"
proof -
  have "particles (step s) ! i = repel (mouse s) q"
    using assms(1-3) by (simp add: particles_step update_particle_def)
  moreover have "p_vx (repel (mouse s) q) = NaN \<and> p_vy (repel (mouse s) q) = NaN"
    using assms(4-8) by (simp add: repel_def jsub_def Let_def)
  ultimately show ?thesis by simp
qed

lemma step_nan_velocity:
  assumes "shouldRun s" and "i < length (particles s)"
    and "p_vx (particles s ! i) = NaN"
  shows "p_x (particles (step s) ! i) = NaN"
proof -
  have "p_x (particles (step s) ! i)
        = p_x (wrap (innerWidth s) (innerHeight s) (integrate (particles s ! i)))"
    using assms(1,2) by (simp add: particles_step update_particle_def)
  moreover have "p_x (integrate (particles s ! i)) = NaN"
    using assms(3) by (simp add: integrate_def)
  ultimately show ?thesis
    by (simp add: wrap_x_cases)
qed

text \<open>
  C5. After the wrap phase of a frame step, every particle's position lies within
  \<open>[-10, width + 10] \<times> [-10, height + 10]\<close>. Evaluated for the particle at rest at the
  pointer's position: the first step divides the offset 0 by the distance 0 and leaves the
  velocity NaN; in the second step the integration makes the position NaN, no comparison
  of the wrap holds, and after the wrap phase the position is NaN, in no interval.
\<close>

theorem wrap_after_pointer_hit:
  "shouldRun under_pointer \<and> shouldRun (step under_pointer)
   \<and> particles under_pointer = [resting] \<and> mouse under_pointer = pointer_at 100 100
   \<and> p_x (wrap 1920 1080 (integrate (particles (step under_pointer) ! 0))) = NaN
   \<and> p_x (particles (step (step under_pointer)) ! 0) = NaN
   \<and> p_y (particles (step (step under_pointer)) ! 0) = NaN
   \<and> \<not> jbetween (Fin (- 10)) (p_x (particles (step (step under_pointer)) ! 0))
         (Fin (real (innerWidth (step under_pointer)) + 10))
   \<and> \<not> jbetween (Fin (- 10)) (p_y (particles (step (step under_pointer)) ! 0))
         (Fin (real (innerHeight (step under_pointer)) + 10))"
  by (simp add: under_pointer_def step_def shouldRun_def Let_def update_particle_def
        integrate_def wrap_def jgt_def repel_def resting_def pointer_at_def jsub_def
        requestAnimationFrame_def jbetween_def)

subsection \<open>Repulsion\<close>

lemma repel_no_pointer: "m_x m = None \<Longrightarrow> repel m p = p"
  by (simp add: repel_def)

lemma repel_finite:
  assumes "p_x p = Fin px" "p_y p = Fin py"
    and "m_x m = Some (Fin cx)" "m_y m = Some (Fin cy)" "radius m = Fin 90"
    and "d = sqrt ((px - cx)\<^sup>2 + (py - cy)\<^sup>2)"
  shows "repel m p =
     (if d < 90
      then p\<lparr>p_vx := jadd (p_vx p) (jmul (jmul (jdiv (Fin (px - cx)) (Fin d)) (Fin 0.6))
                                        (Fin ((90 - d) / 90))),
             p_vy := jadd (p_vy p) (jmul (jmul (jdiv (Fin (py - cy)) (Fin d)) (Fin 0.6))
                                        (Fin ((90 - d) / 90)))\<rparr>
      else p)"
proof -
  have nonneg: "\<not> (px - cx) * (px - cx) + (py - cy) * (py - cy) < 0"
    by (simp add: not_less)
  show ?thesis
    using assms nonneg
    by (simp add: repel_def jsub_def Let_def power2_eq_square)
qed

lemma unit_scaled_norm:
  fixes dx dy k :: real
  assumes "d = sqrt (dx\<^sup>2 + dy\<^sup>2)" "0 < d" "0 \<le> k"
  shows "sqrt ((dx / d * k)\<^sup>2 + (dy / d * k)\<^sup>2) = k"
proof -
  have d2: "d\<^sup>2 = dx\<^sup>2 + dy\<^sup>2"
    using assms(1) by simp
  have "(dx / d * k)\<^sup>2 + (dy / d * k)\<^sup>2 = (dx\<^sup>2 + dy\<^sup>2) / d\<^sup>2 * k\<^sup>2"
    by (simp add: power_mult_distrib power_divide add_divide_distrib distrib_right)
  also have "\<dots> = k\<^sup>2"
  proof -
    have "(dx\<^sup>2 + dy\<^sup>2) / d\<^sup>2 = d\<^sup>2 / d\<^sup>2"
      by (simp only: d2)
    also have "\<dots> = 1"
      using assms(2) by simp
    finally have one: "(dx\<^sup>2 + dy\<^sup>2) / d\<^sup>2 = 1" .
    show ?thesis unfolding one by simp
  qed
  finally show ?thesis
    using assms(3) by simp
qed

text \<open>
  The increment in the model's exact arithmetic, for a finite particle at a distance
  \<open>0 < d < 90\<close> from the pointer: magnitude \<open>0.6 * (90 - d) / 90\<close> along the unit vector
  from the pointer to the particle; none from 90 on, none without a pointer. (In doubles
  \<open>dx*dx + dy*dy\<close> underflows to 0 for offsets below about \<open>1e-162\<close>, and the script then
  divides by 0 as it does at the distance 0; the exact arithmetic does not show that.)
\<close>

lemma repel_increment_exact:
  assumes "p_x p = Fin px" "p_y p = Fin py"
    and "m_x m = Some (Fin cx)" "m_y m = Some (Fin cy)" "radius m = Fin 90"
    and "d = sqrt ((px - cx)\<^sup>2 + (py - cy)\<^sup>2)"
    and "k = 0.6 * ((90 - d) / 90)"
  shows "(0 < d \<and> d < 90 \<longrightarrow>
           repel m p = p\<lparr>p_vx := jadd (p_vx p) (Fin ((px - cx) / d * k)),
                          p_vy := jadd (p_vy p) (Fin ((py - cy) / d * k))\<rparr>
           \<and> sqrt (((px - cx) / d * k)\<^sup>2 + ((py - cy) / d * k)\<^sup>2) = k)
       \<and> (90 \<le> d \<longrightarrow> repel m p = p)
       \<and> repel (m\<lparr>m_x := None\<rparr>) p = p"
proof -
  have inc: "jmul (jmul (jdiv (Fin a) (Fin d)) (Fin 0.6)) (Fin ((90 - d) / 90)) = Fin (a / d * k)"
    if "0 < d" for a
    unfolding \<open>k = 0.6 * ((90 - d) / 90)\<close> using that by (simp add: field_simps)
  have "repel m p = p\<lparr>p_vx := jadd (p_vx p) (Fin ((px - cx) / d * k)),
                          p_vy := jadd (p_vy p) (Fin ((py - cy) / d * k))\<rparr>"
    if "0 < d" "d < 90"
    using that repel_finite [OF assms(1-6)] by (simp only: inc if_True)
  moreover have "sqrt (((px - cx) / d * k)\<^sup>2 + ((py - cy) / d * k)\<^sup>2) = k"
    if "0 < d" "d < 90"
    using that assms(7) by (intro unit_scaled_norm [OF assms(6)]) simp_all
  moreover have "repel m p = p" if "90 \<le> d"
    using that repel_finite [OF assms(1-6)] by simp
  moreover have "repel (m\<lparr>m_x := None\<rparr>) p = p"
    by (simp add: repel_no_pointer)
  ultimately show ?thesis by blast
qed

text \<open>
  C6. During a frame step with an active pointer, every particle at Euclidean distance
  \<open>d < 90\<close> from the pointer receives a velocity increment of magnitude
  \<open>0.6 * (90 - d) / 90\<close> along the unit vector from the pointer to the particle.
  Evaluated for the particle at rest at the pointer's position: the step finds it, moved
  and wrapped, at \<open>(100, 100)\<close>, at the distance \<open>0 < 90\<close> from the pointer, and what its
  velocity receives in the step is NaN on both axes, not an increment of magnitude 0.6.
\<close>

theorem increment_at_pointer:
  "shouldRun under_pointer \<and> mouse under_pointer = pointer_at 100 100
   \<and> p_x (wrap 1920 1080 (integrate (particles under_pointer ! 0))) = Fin 100
   \<and> p_y (wrap 1920 1080 (integrate (particles under_pointer ! 0))) = Fin 100
   \<and> sqrt ((100 - 100)\<^sup>2 + (100 - 100)\<^sup>2) = (0 :: real)
   \<and> jsub (p_vx (particles (step under_pointer) ! 0)) (p_vx (particles under_pointer ! 0)) = NaN
   \<and> jsub (p_vy (particles (step under_pointer) ! 0)) (p_vy (particles under_pointer ! 0)) = NaN"
  by (simp add: under_pointer_def step_def shouldRun_def Let_def update_particle_def
        integrate_def wrap_def jgt_def repel_def resting_def pointer_at_def jsub_def
        requestAnimationFrame_def)

text \<open>
  C10. For every particle within the interaction radius of an active pointer, the distance 0
  included, the repulsion leaves both velocity components finite. Evaluated for one
  particle at rest at the pointer's position: after the step both components are NaN, since
  the offset \<open>0\<close> is divided by the distance \<open>0\<close>.
\<close>
theorem repulsion_at_pointer_nan:
  "shouldRun under_pointer
   \<and> particles under_pointer = [resting] \<and> mouse under_pointer = pointer_at 100 100
   \<and> particles (step under_pointer) = [resting\<lparr>p_vx := NaN, p_vy := NaN\<rparr>]
   \<and> \<not> is_finite (p_vx (repel (pointer_at 100 100) resting))
   \<and> \<not> is_finite (p_vy (repel (pointer_at 100 100) resting))"
  by (simp add: under_pointer_def step_def shouldRun_def Let_def update_particle_def
        integrate_def wrap_def jgt_def repel_def resting_def pointer_at_def jsub_def
        requestAnimationFrame_def is_finite_def)

subsection \<open>Clearing after the gate has failed\<close>

lemma push_particle_canvas [simp]:
  "canvas_width (push_particle s) = canvas_width s"
  "canvas_height (push_particle s) = canvas_height s"
  "transform (push_particle s) = transform s"
  by (simp_all add: push_particle_def createParticle_def Let_def)

lemma grow_canvas:
  "canvas_width (grow target s) = canvas_width s
   \<and> canvas_height (grow target s) = canvas_height s
   \<and> transform (grow target s) = transform s"
  by (induction target s rule: grow.induct) (subst (1 2 3) grow.simps, simp)

lemma trim_canvas:
  "canvas_width (trim target s) = canvas_width s
   \<and> canvas_height (trim target s) = canvas_height s
   \<and> transform (trim target s) = transform s"
  by (induction target s rule: trim.induct) (subst (1 2 3) trim.simps, simp)

lemma initial_particles_canvas:
  "canvas_width (initial_particles i target s) = canvas_width s
   \<and> canvas_height (initial_particles i target s) = canvas_height s
   \<and> transform (initial_particles i target s) = transform s"
  by (induction i target s rule: initial_particles.induct)
     (subst (1 2 3) initial_particles.simps, simp)

lemma resize_canvas:
  "canvas_width (resize s)
     = max 1 \<lfloor>real (innerWidth s)
               * (if devicePixelRatio s = 0 then 1 else devicePixelRatio s)\<rfloor>"
  "canvas_height (resize s)
     = max 1 \<lfloor>real (innerHeight s)
               * (if devicePixelRatio s = 0 then 1 else devicePixelRatio s)\<rfloor>"
  "transform (resize s) = (if devicePixelRatio s = 0 then 1 else devicePixelRatio s)"
  by (simp_all add: resize_def Let_def trim_canvas grow_canvas)

lemma init_canvas:
  assumes "shouldRun s"
  shows "canvas_width (init s) = canvas_width (resize (normalized s))"
    and "canvas_height (init s) = canvas_height (resize (normalized s))"
    and "transform (init s) = transform (resize (normalized s))"
  using assms shouldRun_normalized [of s]
  by (simp_all add: init_def normalized_def Let_def requestAnimationFrame_def
        initial_particles_canvas)

text \<open>
  What the step does when the gate has failed: it cancels the frame that \<open>animationId\<close>
  names and sets \<open>animationId\<close> to \<open>null\<close>, issues the one \<open>clearRect\<close> of
  \<open>clearCanvas\<close>, and returns; no particle is moved, repelled or drawn, and no further
  frame is scheduled.
\<close>

lemma step_gate_failed:
  assumes "\<not> shouldRun s"
  shows "animationId (step s) = None
    \<and> pending (step s) = (case animationId s of None \<Rightarrow> pending s | Some n \<Rightarrow> removeAll n (pending s))
    \<and> (\<forall>n. animationId s = Some n \<longrightarrow> n \<notin> set (pending (step s)))
    \<and> frame_counter (step s) = frame_counter s
    \<and> drawn (step s) = drawn s @ [ClearRect (Fin 0) (Fin 0) (Fin (of_int (canvas_width s)))
           (Fin (of_int (canvas_height s)))]
    \<and> particles (step s) = particles s
    \<and> step s = s\<lparr>drawn := drawn (step s), pending := pending (step s), animationId := None\<rparr>"
  using assms
  by (simp add: step_def clearCanvas_def cancelAnimationFrame_def split: option.splits)

lemma drawn_step_denied:
  "\<not> shouldRun s \<Longrightarrow>
   drawn (step s) =
     drawn s @ [ClearRect (Fin 0) (Fin 0) (Fin (of_int (canvas_width s)))
                  (Fin (of_int (canvas_height s)))]"
  by (simp add: step_def clearCanvas_def cancelAnimationFrame_def split: option.splits)

lemma run_frame:
  "n \<in> set (pending s) \<Longrightarrow>
   host_event (AnimationFrame n) s = step (s\<lparr>pending := removeAll n (pending s)\<rparr>)"
  by simp

lemma half_scale_facts:
  "initial half_scale" "shouldRun half_scale"
  "canvas_width (init half_scale) = 1000" "canvas_height (init half_scale) = 500"
  "transform (init half_scale) = 1 / 2"
  "pending (init half_scale) = [1]" "animationId (init half_scale) = Some 1"
  "frame_counter (init half_scale) = 1"
  "innerWidth (init half_scale) = 2000" "innerHeight (init half_scale) = 1000"
  "matchMedia (init half_scale) = Some False" "visuals (init half_scale) = Some ''on''"
proof -
  show i: "initial half_scale"
    by (simp add: half_scale_def initial_def page_def)
  show run: "shouldRun half_scale"
    by (simp add: half_scale_def shouldRun_def)
  have n: "innerWidth (normalized half_scale) = 2000" "innerHeight (normalized half_scale) = 1000"
    "devicePixelRatio (normalized half_scale) = 1 / 2"
    by (simp_all add: normalized_def half_scale_def page_def)
  show "canvas_width (init half_scale) = 1000" "canvas_height (init half_scale) = 500"
    "transform (init half_scale) = 1 / 2"
    by (simp_all add: init_canvas [OF run] resize_canvas n)
  show "pending (init half_scale) = [1]" "animationId (init half_scale) = Some 1"
    "frame_counter (init half_scale) = 1"
    "innerWidth (init half_scale) = 2000" "innerHeight (init half_scale) = 1000"
    "matchMedia (init half_scale) = Some False" "visuals (init half_scale) = Some ''on''"
    by (simp_all add: init_fields [OF run] normalized_def) (simp_all add: half_scale_def)
qed

text \<open>
  C8. When the run gate fails at the start of a frame step, the step cancels the scheduled
  frame and sets the handle to none, clears the drawing surface, and returns without moving
  or drawing a particle and without scheduling a frame. Evaluated on the page of 2000 by
  1000 at a pixel ratio of \<open>1/2\<close>, after \<open>init\<close>, one frame, and the attribute set to
  \<open>off\<close>: the step that finds the gate closed cancels and schedules nothing, and its one
  \<open>clearRect(0, 0, canvas.width, canvas.height)\<close> is \<open>clearRect(0, 0, 1000, 500)\<close> under
  the scale \<open>1/2\<close>, which covers a quarter of the bitmap of 1000 by 500 pixels and not the
  surface. The rectangle of the step's own clear, \<open>(0, 0, innerWidth, innerHeight)\<close>, covers
  it.
\<close>

theorem clear_after_gate_failure:
  "reachable switched_off \<and> \<not> shouldRun switched_off
   \<and> animationId switched_off = None \<and> pending switched_off = []
   \<and> canvas_width switched_off = 1000 \<and> canvas_height switched_off = 500
   \<and> transform switched_off = 1 / 2
   \<and> last (drawn switched_off) = ClearRect (Fin 0) (Fin 0) (Fin 1000) (Fin 500)
   \<and> \<not> covers_canvas switched_off (last (drawn switched_off))
   \<and> covers_canvas switched_off
         (ClearRect (Fin 0) (Fin 0) (Fin (real (innerWidth switched_off)))
            (Fin (real (innerHeight switched_off))))"
proof -
  define a where "a = (init half_scale)\<lparr>pending := removeAll 1 (pending (init half_scale))\<rparr>"
  define off where "off = (step a)\<lparr>visuals := Some ''off''\<rparr>"
  define b where "b = off\<lparr>pending := removeAll 2 (pending off)\<rparr>"
  note h = half_scale_facts
  have a_fields: "pending a = []" "animationId a = Some 1" "frame_counter a = 1"
    "canvas_width a = 1000" "canvas_height a = 500" "transform a = 1 / 2"
    "innerWidth a = 2000" "innerHeight a = 1000"
    "matchMedia a = Some False" "visuals a = Some ''on''"
    by (simp_all add: a_def h)
  have run_a: "shouldRun a"
    by (simp add: shouldRun_def a_fields)
  have off_fields: "pending off = [2]" "animationId off = Some 2"
    "canvas_width off = 1000" "canvas_height off = 500" "transform off = 1 / 2"
    "innerWidth off = 2000" "innerHeight off = 1000" "visuals off = Some ''off''"
    unfolding off_def using run_a
    by (simp_all add: step_schedule step_host_fields a_fields)
  have b_fields: "pending b = []" "animationId b = Some 2"
    "canvas_width b = 1000" "canvas_height b = 500" "transform b = 1 / 2"
    "innerWidth b = 2000" "innerHeight b = 1000" "visuals b = Some ''off''"
    by (simp_all add: b_def off_fields)
  have denied: "\<not> shouldRun b"
    by (simp add: shouldRun_def b_fields)
  have f1: "host_event (AnimationFrame 1) (init half_scale) = step a"
    unfolding a_def by (rule run_frame) (simp add: h)
  have f2: "host_event (SetVisuals (Some ''off'')) (step a) = off"
    unfolding off_def by (rule host_event.simps)
  have final: "switched_off = step b"
    unfolding switched_off_def f1 f2 b_def
    by (rule run_frame) (simp add: off_fields)
  have fields: "animationId switched_off = None" "pending switched_off = []"
    "canvas_width switched_off = 1000" "canvas_height switched_off = 500"
    "transform switched_off = 1 / 2"
    "innerWidth switched_off = 2000" "innerHeight switched_off = 1000"
    "visuals switched_off = Some ''off''"
    unfolding final using denied
    by (simp_all add: step_schedule step_host_fields b_fields)
  have cleared: "last (drawn switched_off) = ClearRect (Fin 0) (Fin 0) (Fin 1000) (Fin 500)"
    unfolding final using denied
    by (simp add: drawn_step_denied b_fields)
  have "reachable switched_off"
    unfolding switched_off_def
    by (intro reachable.after_event reachable.after_init h(1))
  moreover have "\<not> shouldRun switched_off"
    by (simp add: shouldRun_def fields)
  ultimately show ?thesis
    by (simp add: fields cleared)
qed

end
